theory Spec2Isabelle
  imports Complex_Main
begin

section \<open>Conventions of the embedding\<close>

text \<open>
  The controllers of the repository are Python classes whose methods read the wall clock
  with \<^verbatim>\<open>time.time()\<close> and mutate the fields of \<^verbatim>\<open>self\<close>. In the embedding
  \<^item> every class is a record of its fields, and a method takes the record and returns the
    updated record next to its return value;
  \<^item> the value read from \<^verbatim>\<open>time.time()\<close> is an explicit argument \<open>now\<close> of the method;
  \<^item> Python floats are the reals: the arithmetic is exact, there is no rounding, no
    infinity and no NaN;
  \<^item> the level last written to a GPIO pin with \<^verbatim>\<open>GPIO.output\<close> is a field of the record
    of the controller that owns the pin;
  \<^item> a body executed under \<^verbatim>\<open>with self.lock\<close> is one atomic step.
\<close>

text \<open>
  The expression \<^verbatim>\<open>max(lo, min(hi, x))\<close> is written inline at every clamping site of the
  source (PID output, servo targets and positions, requested angles).
\<close>

definition clamp :: "real \<Rightarrow> real \<Rightarrow> real \<Rightarrow> real" where
  "clamp lo hi x = max lo (min hi x)"

section \<open>Emitter safety controller (src/laser/laser_controller.py)\<close>

datatype level = LOW | HIGH

record laser_controller =
  enable_pin :: int
  safety_timeout :: real
  is_on :: bool
  is_initialized :: bool
  last_on_time :: real
  safety_running :: bool
  pin_out :: level

text \<open>\<^verbatim>\<open>LaserController.__init__\<close>; the pin has not been driven yet and reads \<open>LOW\<close>.\<close>

definition laser_init :: "int \<Rightarrow> real \<Rightarrow> laser_controller" where
  "laser_init pin timeout =
     \<lparr>enable_pin = pin, safety_timeout = timeout, is_on = False, is_initialized = False,
      last_on_time = 0, safety_running = False, pin_out = LOW\<rparr>"

text \<open>\<^verbatim>\<open>LaserController.initialize\<close> on the path where no GPIO call raises.\<close>

definition initialize :: "laser_controller \<Rightarrow> bool \<times> laser_controller" where
  "initialize s = (True, s\<lparr>pin_out := LOW, safety_running := True, is_initialized := True\<rparr>)"

definition turn_on :: "real \<Rightarrow> laser_controller \<Rightarrow> bool \<times> laser_controller" where
  "turn_on now s =
     (if \<not> is_initialized s then (False, s)
      else if \<not> is_on s
        then (True, s\<lparr>pin_out := HIGH, is_on := True, last_on_time := now\<rparr>)
        else (True, s))"

definition turn_off :: "laser_controller \<Rightarrow> bool \<times> laser_controller" where
  "turn_off s =
     (if \<not> is_initialized s then (False, s)
      else if is_on s
        then (True, s\<lparr>pin_out := LOW, is_on := False\<rparr>)
        else (True, s))"

definition is_laser_on :: "laser_controller \<Rightarrow> bool" where
  "is_laser_on s = is_on s"

definition emergency_stop :: "laser_controller \<Rightarrow> laser_controller" where
  "emergency_stop s = s\<lparr>pin_out := LOW, is_on := False\<rparr>"

text \<open>
  One iteration of the loop of \<^verbatim>\<open>safety_monitor\<close>: the body under the lock, with \<open>now\<close>
  the clock value it reads. The \<^verbatim>\<open>time.sleep(0.1)\<close> that follows is outside the lock
  and changes no field.
\<close>

definition safety_tick :: "real \<Rightarrow> laser_controller \<Rightarrow> laser_controller" where
  "safety_tick now s =
     (if is_on s \<and> now - last_on_time s > safety_timeout s
      then s\<lparr>pin_out := LOW, is_on := False\<rparr>
      else s)"

definition get_on_duration :: "real \<Rightarrow> laser_controller \<Rightarrow> real" where
  "get_on_duration now s = (if is_on s then now - last_on_time s else 0)"

text \<open>
  The watchdog thread and the callers of \<^verbatim>\<open>turn_on\<close> and \<^verbatim>\<open>turn_off\<close> take the same lock,
  so an execution is a sequence of atomic steps, each stamped with the clock value read
  while the lock is held.
\<close>

datatype laser_event = TurnOn | TurnOff | Tick

fun laser_step :: "real \<times> laser_event \<Rightarrow> laser_controller \<Rightarrow> laser_controller" where
  "laser_step (t, TurnOn) s = snd (turn_on t s)"
| "laser_step (t, TurnOff) s = snd (turn_off s)"
| "laser_step (t, Tick) s = safety_tick t s"

fun laser_run :: "laser_controller \<Rightarrow> (real \<times> laser_event) list \<Rightarrow> laser_controller" where
  "laser_run s [] = s"
| "laser_run s (e # es) = laser_run (laser_step e s) es"

text \<open>
  The time of the most recent watchdog tick, \<open>t0\<close> being the time the watchdog thread
  was started.
\<close>

fun last_tick :: "real \<Rightarrow> (real \<times> laser_event) list \<Rightarrow> real" where
  "last_tick t0 [] = t0"
| "last_tick t0 ((t, e) # es) = last_tick (if e = Tick then t else t0) es"

text \<open>
  The scheduling assumption of the safety bound: the clock values of successive steps do
  not decrease, and no step happens later than one watchdog period \<open>P\<close> after the
  previous tick (\<open>lt\<close>); \<open>prev\<close> is the time of the previous step.
\<close>

fun cadence :: "real \<Rightarrow> real \<Rightarrow> real \<Rightarrow> (real \<times> laser_event) list \<Rightarrow> bool" where
  "cadence P lt prev [] = True"
| "cadence P lt prev ((t, e) # es) =
     (prev \<le> t \<and> t \<le> lt + P \<and> cadence P (if e = Tick then t else lt) t es)"

section \<open>Axis PID controller and servo controller (src/servo/servo_controller.py)\<close>

record pid_controller =
  kp :: real
  ki :: real
  kd :: real
  max_output :: real
  last_error :: real
  integral :: real
  last_time :: real

text \<open>\<^verbatim>\<open>PIDController.__init__\<close>, created at clock value \<open>now\<close>.\<close>

definition pid_init :: "real \<Rightarrow> real \<Rightarrow> real \<Rightarrow> real \<Rightarrow> real \<Rightarrow> pid_controller" where
  "pid_init now p i d m =
     \<lparr>kp = p, ki = i, kd = d, max_output = m, last_error = 0, integral = 0, last_time = now\<rparr>"

text \<open>
  \<^verbatim>\<open>PIDController.update\<close>. The integral is accumulated before the output is computed,
  the derivative uses the error of the previous call, and \<open>last_error\<close> and \<open>last_time\<close>
  are written after the output is clamped.
\<close>

definition pid_update :: "real \<Rightarrow> real \<Rightarrow> pid_controller \<Rightarrow> real \<times> pid_controller" where
  "pid_update now error s =
     (let dt = now - last_time s in
      if dt \<le> 0 then (0, s)
      else
        let proportional = kp s * error;
            s1 = s\<lparr>integral := integral s + error * dt\<rparr>;
            integ = ki s1 * integral s1;
            derivative = kd s1 * (error - last_error s1) / dt;
            output = proportional + integ + derivative;
            output' = clamp (- max_output s1) (max_output s1) output
        in (output', s1\<lparr>last_error := error, last_time := now\<rparr>))"

definition pid_reset :: "real \<Rightarrow> pid_controller \<Rightarrow> pid_controller" where
  "pid_reset now s = s\<lparr>last_error := 0, integral := 0, last_time := now\<rparr>"

text \<open>
  The position state of \<^verbatim>\<open>ServoController\<close>: targets, current angles, limits and the two
  PID controllers. The pin numbers, the PWM handles, the thread and its flags take no
  part in the operations below and are left out.
\<close>

record servo_controller =
  current_pan :: real
  current_tilt :: real
  target_pan :: real
  target_tilt :: real
  pan_min :: real
  pan_max :: real
  tilt_min :: real
  tilt_max :: real
  pan_pid :: pid_controller
  tilt_pid :: pid_controller

text \<open>\<^verbatim>\<open>ServoController.__init__\<close>, with the default gains of the PID controllers.\<close>

definition servo_init :: "real \<Rightarrow> servo_controller" where
  "servo_init now =
     \<lparr>current_pan = 0, current_tilt = 0, target_pan = 0, target_tilt = 0,
      pan_min = - 90, pan_max = 90, tilt_min = - 45, tilt_max = 45,
      pan_pid = pid_init now (8/10) (1/10) (2/10) 10,
      tilt_pid = pid_init now (8/10) (1/10) (2/10) 10\<rparr>"

definition set_target_position :: "real \<Rightarrow> real \<Rightarrow> servo_controller \<Rightarrow> servo_controller" where
  "set_target_position pan tilt s =
     s\<lparr>target_pan := clamp (pan_min s) (pan_max s) pan,
       target_tilt := clamp (tilt_min s) (tilt_max s) tilt\<rparr>"

definition get_current_position :: "servo_controller \<Rightarrow> real \<times> real" where
  "get_current_position s = (current_pan s, current_tilt s)"

definition set_limits :: "real \<Rightarrow> real \<Rightarrow> real \<Rightarrow> real \<Rightarrow> servo_controller \<Rightarrow> servo_controller" where
  "set_limits pmin pmax tmin tmax s =
     s\<lparr>pan_min := pmin, pan_max := pmax, tilt_min := tmin, tilt_max := tmax\<rparr>"

definition center_servos :: "servo_controller \<Rightarrow> servo_controller" where
  "center_servos s = set_target_position 0 0 s"

section \<open>Detections and the target tracker (src/detection, src/tracking)\<close>

record bounding_box =
  x :: real
  y :: real
  width :: real
  height :: real
  confidence :: real
  class_id :: int

definition center :: "bounding_box \<Rightarrow> real \<times> real" where
  "center b = (x b + width b / 2, y b + height b / 2)"

definition area :: "bounding_box \<Rightarrow> real" where
  "area b = width b * height b"

record target_tracker =
  frame_width :: int
  frame_height :: int
  frame_center_x :: int
  frame_center_y :: int
  current_target :: "bounding_box option"
  target_lost_time :: real
  max_lost_time :: real
  position_history :: "(real \<times> real) list"
  history_size :: int
  deadzone_x :: real
  deadzone_y :: real

text \<open>\<^verbatim>\<open>TargetTracker.__init__\<close>; \<^verbatim>\<open>//\<close> is floor division, as \<open>div\<close> on \<open>int\<close> is.\<close>

definition tracker_init :: "int \<Rightarrow> int \<Rightarrow> target_tracker" where
  "tracker_init w h =
     \<lparr>frame_width = w, frame_height = h, frame_center_x = w div 2, frame_center_y = h div 2,
      current_target = None, target_lost_time = 0, max_lost_time = 2,
      position_history = [], history_size = 5, deadzone_x = 20, deadzone_y = 20\<rparr>"

text \<open>
  Python's \<^verbatim>\<open>max(xs, key=f)\<close> and \<^verbatim>\<open>min(xs, key=f)\<close> on a non-empty list: one pass from the
  first element, the candidate being replaced only by an element whose key is strictly
  greater (strictly smaller). The arguments are the first element and the rest.
\<close>

definition py_max :: "('a \<Rightarrow> real) \<Rightarrow> 'a \<Rightarrow> 'a list \<Rightarrow> 'a" where
  "py_max key d ds = foldl (\<lambda>best e. if key e > key best then e else best) d ds"

definition py_min :: "('a \<Rightarrow> real) \<Rightarrow> 'a \<Rightarrow> 'a list \<Rightarrow> 'a" where
  "py_min key d ds = foldl (\<lambda>best e. if key e < key best then e else best) d ds"

definition distance :: "real \<times> real \<Rightarrow> real \<times> real \<Rightarrow> real" where
  "distance pos1 pos2 = sqrt ((fst pos1 - fst pos2)\<^sup>2 + (snd pos1 - snd pos2)\<^sup>2)"

definition add_to_history :: "real \<times> real \<Rightarrow> target_tracker \<Rightarrow> target_tracker" where
  "add_to_history position s =
     (let h = position_history s @ [position] in
      s\<lparr>position_history := (if int (length h) > history_size s then tl h else h)\<rparr>)"

text \<open>
  \<^verbatim>\<open>TargetTracker.update_target\<close>. A \<^verbatim>\<open>BoundingBox\<close> object is always truthy, so the tests
  \<^verbatim>\<open>if self.current_target\<close> ask whether the field is \<^verbatim>\<open>None\<close>. The value \<open>0\<close> of
  \<open>target_lost_time\<close> stands for a timer that is not running.
\<close>

definition update_target ::
  "real \<Rightarrow> bounding_box list \<Rightarrow> target_tracker \<Rightarrow> bounding_box option \<times> target_tracker" where
  "update_target current_time detections s =
     (case detections of
        [] \<Rightarrow>
          let s' =
            (if current_target s \<noteq> None then
               if target_lost_time s = 0 then s\<lparr>target_lost_time := current_time\<rparr>
               else if current_time - target_lost_time s > max_lost_time s
                 then s\<lparr>current_target := None, target_lost_time := 0, position_history := []\<rparr>
                 else s
             else s)
          in (current_target s', s')
      | d # ds \<Rightarrow>
          let s1 = s\<lparr>target_lost_time := 0\<rparr>;
              tgt =
                (case current_target s1 of
                   None \<Rightarrow> py_max area d ds
                 | Some cur \<Rightarrow> py_min (\<lambda>det. distance (center det) (center cur)) d ds);
              s2 = add_to_history (center tgt) (s1\<lparr>current_target := Some tgt\<rparr>)
          in (current_target s2, s2))"

text \<open>The frame loop feeds one detection list per frame; the results are collected in order.\<close>

fun update_frames ::
  "target_tracker \<Rightarrow> (real \<times> bounding_box list) list \<Rightarrow> bounding_box option list \<times> target_tracker"
where
  "update_frames s [] = ([], s)"
| "update_frames s ((t, dets) # fs) =
     (let (r, s') = update_target t dets s; (rs, s'') = update_frames s' fs in (r # rs, s''))"

definition get_smoothed_position :: "target_tracker \<Rightarrow> real \<times> real" where
  "get_smoothed_position s =
     (case position_history s of
        [] \<Rightarrow> (real_of_int (frame_center_x s), real_of_int (frame_center_y s))
      | [p] \<Rightarrow> p
      | ps \<Rightarrow> (sum_list (map fst ps) / real (length ps),
               sum_list (map snd ps) / real (length ps)))"

datatype py_error = ZeroDivisionError | ValueError | AttributeError | TypeError

text \<open>
  \<^verbatim>\<open>TargetTracker.get_servo_angles\<close>; \<open>target\<close> is the optional argument. The two true
  divisions raise \<^verbatim>\<open>ZeroDivisionError\<close> on a frame dimension of zero, the one of the x
  axis first.
\<close>

definition get_servo_angles ::
  "bounding_box option \<Rightarrow> real \<Rightarrow> real \<Rightarrow> target_tracker \<Rightarrow> py_error + real \<times> real" where
  "get_servo_angles target max_pan max_tilt s =
     (let target' = (if target = None then current_target s else target) in
      if target' = None then Inr (0, 0)
      else
        let (target_x, target_y) = get_smoothed_position s;
            error_x = target_x - real_of_int (frame_center_x s);
            error_y = target_y - real_of_int (frame_center_y s);
            error_x' = (if \<bar>error_x\<bar> < deadzone_x s then 0 else error_x);
            error_y' = (if \<bar>error_y\<bar> < deadzone_y s then 0 else error_y)
        in if frame_width s = 0 then Inl ZeroDivisionError
           else if frame_height s = 0 then Inl ZeroDivisionError
           else
             let norm_x = error_x' / (real_of_int (frame_width s) / 2);
                 norm_y = error_y' / (real_of_int (frame_height s) / 2);
                 pan_angle = clamp (- max_pan) max_pan (norm_x * max_pan);
                 tilt_angle = clamp (- max_tilt) max_tilt (norm_y * max_tilt)
             in Inr (pan_angle, tilt_angle))"

definition get_tracking_error :: "target_tracker \<Rightarrow> real \<times> real" where
  "get_tracking_error s =
     (if current_target s = None then (0, 0)
      else
        let (target_x, target_y) = get_smoothed_position s
        in (target_x - real_of_int (frame_center_x s),
            target_y - real_of_int (frame_center_y s)))"

definition is_target_centered :: "real \<Rightarrow> target_tracker \<Rightarrow> bool" where
  "is_target_centered threshold s =
     (if current_target s = None then False
      else
        let (error_x, error_y) = get_tracking_error s
        in sqrt (error_x\<^sup>2 + error_y\<^sup>2) < threshold)"

definition has_target :: "target_tracker \<Rightarrow> bool" where
  "has_target s = (current_target s \<noteq> None)"

definition tracker_reset :: "target_tracker \<Rightarrow> target_tracker" where
  "tracker_reset s = s\<lparr>current_target := None, target_lost_time := 0, position_history := []\<rparr>"

section \<open>Telemetry and command channel (src/serial/serial_interface.py)\<close>

subsection \<open>The Python library functions the command path calls\<close>

text \<open>
  The command path calls \<^verbatim>\<open>json.loads\<close>, \<^verbatim>\<open>str.split\<close>, \<^verbatim>\<open>str.upper\<close> and \<^verbatim>\<open>float\<close> of the
  Python library. Each is modelled on a fragment of its inputs, named at its definition;
  outside the fragment the model answers \<open>NotModelled\<close>, which every caller passes on, so
  that nothing is stated about such inputs. A character of the model is one character
  of the Python string.
\<close>

datatype 'a modelled = Known 'a | NotModelled

text \<open>
  The JSON values of the fragment: strings and objects. An object is a Python \<^verbatim>\<open>dict\<close>:
  a list of pairs with distinct keys, in the order of first insertion; storing under a
  key that is present replaces its value in place.
\<close>

datatype json = JStr string | JObj "(string \<times> json) list"

fun dict_set :: "string \<Rightarrow> json \<Rightarrow> (string \<times> json) list \<Rightarrow> (string \<times> json) list" where
  "dict_set k v [] = [(k, v)]"
| "dict_set k v ((k', v') # kvs) =
     (if k = k' then (k, v) # kvs else (k', v') # dict_set k v kvs)"

definition dict_get :: "(string \<times> json) list \<Rightarrow> string \<Rightarrow> json option" where
  "dict_get d k = map_of d k"

text \<open>
  \<^verbatim>\<open>json.loads\<close> on documents built from objects and strings without escapes and without
  control characters, with the four JSON whitespace characters between tokens. The
  fuel bounds the number of members and nested values read; \<open>json_loads\<close> supplies
  more than the length of the document. Every other document, malformed ones included,
  is \<open>NotModelled\<close>.
\<close>

definition is_json_ws :: "char \<Rightarrow> bool" where
  "is_json_ws c \<longleftrightarrow> c = CHR '' '' \<or> c = CHR 0x09 \<or> c = CHR 0x0A \<or> c = CHR 0x0D"

definition skip_ws :: "string \<Rightarrow> string" where
  "skip_ws cs = dropWhile is_json_ws cs"

fun scan_string :: "string \<Rightarrow> string \<Rightarrow> (string \<times> string) option" where
  \<open>scan_string acc [] = None\<close>
| \<open>scan_string acc (c # cs) =
     (if c = CHR ''"'' then Some (rev acc, cs)
      else if c = CHR 0x5C \<or> (of_char c :: nat) < 32 then None
      else scan_string (c # acc) cs)\<close>

fun parse_value :: "nat \<Rightarrow> string \<Rightarrow> (json \<times> string) option"
  and parse_members :: "nat \<Rightarrow> (string \<times> json) list \<Rightarrow> string \<Rightarrow> (json \<times> string) option"
where
  \<open>parse_value 0 cs = None\<close>
| \<open>parse_value (Suc n) cs =
     (case cs of
        [] \<Rightarrow> None
      | c # rest \<Rightarrow>
          if c = CHR ''"'' then
            (case scan_string [] rest of
               None \<Rightarrow> None
             | Some (str, rest') \<Rightarrow> Some (JStr str, rest'))
          else if c = CHR ''{'' then
            (case skip_ws rest of
               [] \<Rightarrow> None
             | c' # rest' \<Rightarrow>
                 if c' = CHR ''}'' then Some (JObj [], rest')
                 else parse_members n [] (c' # rest'))
          else None)\<close>
| \<open>parse_members 0 acc cs = None\<close>
| \<open>parse_members (Suc n) acc cs =
     (case skip_ws cs of
        [] \<Rightarrow> None
      | c # rest \<Rightarrow>
          if c \<noteq> CHR ''"'' then None
          else
            (case scan_string [] rest of
               None \<Rightarrow> None
             | Some (key, rest1) \<Rightarrow>
                 (case skip_ws rest1 of
                    [] \<Rightarrow> None
                  | c1 # rest2 \<Rightarrow>
                      if c1 \<noteq> CHR '':'' then None
                      else
                        (case parse_value n (skip_ws rest2) of
                           None \<Rightarrow> None
                         | Some (v, rest3) \<Rightarrow>
                             (case skip_ws rest3 of
                                [] \<Rightarrow> None
                              | c3 # rest4 \<Rightarrow>
                                  if c3 = CHR '','' then parse_members n (dict_set key v acc) rest4
                                  else if c3 = CHR ''}'' then Some (JObj (dict_set key v acc), rest4)
                                  else None)))))\<close>

definition json_loads :: "string \<Rightarrow> json modelled" where
  "json_loads s =
     (case parse_value (Suc (length s)) (skip_ws s) of
        None \<Rightarrow> NotModelled
      | Some (v, rest) \<Rightarrow> if skip_ws rest = [] then Known v else NotModelled)"

text \<open>\<^verbatim>\<open>str.upper\<close> on strings of ASCII characters.\<close>

definition upper_char :: "char \<Rightarrow> char" where
  "upper_char c =
     (if 97 \<le> (of_char c :: nat) \<and> (of_char c :: nat) \<le> 122
      then char_of ((of_char c :: nat) - 32) else c)"

definition py_upper :: "string \<Rightarrow> string modelled" where
  "py_upper s =
     (if list_all (\<lambda>c. (of_char c :: nat) < 128) s then Known (map upper_char s)
      else NotModelled)"

text \<open>
  \<^verbatim>\<open>s.split(' ', 1)\<close>: the text before the first space and the text after it, or the whole
  string when it has no space.
\<close>

definition py_split1 :: "string \<Rightarrow> string list" where
  "py_split1 s =
     (case dropWhile (\<lambda>c. c \<noteq> CHR '' '') s of
        [] \<Rightarrow> [s]
      | _ # rest \<Rightarrow> [takeWhile (\<lambda>c. c \<noteq> CHR '' '') s, rest])"

text \<open>
  \<^verbatim>\<open>s.split()\<close>: the maximal runs of characters that are not whitespace; the whitespace
  characters below code point 256 are 9 to 13, 28 to 32, 133 and 160.
\<close>

definition is_py_space :: "char \<Rightarrow> bool" where
  "is_py_space c \<longleftrightarrow>
     (let n = (of_char c :: nat)
      in (9 \<le> n \<and> n \<le> 13) \<or> (28 \<le> n \<and> n \<le> 32) \<or> n = 133 \<or> n = 160)"

fun py_split_from :: "string \<Rightarrow> string \<Rightarrow> string list" where
  "py_split_from cur [] = (if cur = [] then [] else [rev cur])"
| "py_split_from cur (c # cs) =
     (if is_py_space c
      then (if cur = [] then py_split_from [] cs else rev cur # py_split_from [] cs)
      else py_split_from (c # cur) cs)"

definition py_split :: "string \<Rightarrow> string list" where
  "py_split s = py_split_from [] s"

text \<open>
  \<^verbatim>\<open>float(s)\<close> on strings made of ASCII digits, signs and points only: an optional sign,
  then digits with an optional point inside, before or after them, is the decimal
  number written; every other string over these characters raises \<^verbatim>\<open>ValueError\<close>.
  Strings with other characters (exponents, \<^verbatim>\<open>inf\<close>, \<^verbatim>\<open>nan\<close>, underscores, whitespace) are
  \<open>NotModelled\<close>.
\<close>

definition is_digit :: "char \<Rightarrow> bool" where
  "is_digit c \<longleftrightarrow> 48 \<le> (of_char c :: nat) \<and> (of_char c :: nat) \<le> 57"

definition digits_value :: "string \<Rightarrow> nat" where
  "digits_value ds = foldl (\<lambda>n c. 10 * n + ((of_char c :: nat) - 48)) 0 ds"

definition py_float :: "string \<Rightarrow> (py_error + real) modelled" where
  "py_float s =
     (if \<not> list_all (\<lambda>c. is_digit c \<or> c = CHR ''+'' \<or> c = CHR ''-'' \<or> c = CHR ''.'') s
      then NotModelled
      else
        let negative = (case s of [] \<Rightarrow> False | c # _ \<Rightarrow> c = CHR ''-'');
            body = (case s of [] \<Rightarrow> [] | c # r \<Rightarrow> if c = CHR ''-'' \<or> c = CHR ''+'' then r else s);
            ip = takeWhile is_digit body;
            after = dropWhile is_digit body;
            fp = (case after of [] \<Rightarrow> [] | _ # r \<Rightarrow> r);
            well_formed =
              (case after of
                 [] \<Rightarrow> ip \<noteq> []
               | c # r \<Rightarrow> c = CHR ''.'' \<and> list_all is_digit r \<and> (ip \<noteq> [] \<or> r \<noteq> []));
            magnitude = real (digits_value ip) + real (digits_value fp) / 10 ^ length fp
        in if well_formed then Known (Inr (if negative then - magnitude else magnitude))
           else Known (Inl ValueError))"

subsection \<open>The command table of the debugger and the serial interface\<close>

text \<open>
  The components \<^verbatim>\<open>SerialDebugger.set_system_components\<close> stores; a component that was
  not given is \<open>None\<close>. The camera and the detector are not modelled.
\<close>

record components =
  servo :: "servo_controller option"
  laser :: "laser_controller option"
  tracker :: "target_tracker option"

text \<open>
  The strings \<^verbatim>\<open>cmd_servo\<close> returns, one constructor for each: \<^verbatim>\<open>"No servo"\<close>, the f-string
  \<^verbatim>\<open>"Moving to {pan}, {tilt}"\<close> with its two values, \<^verbatim>\<open>"Invalid args"\<close>, and the f-string
  \<^verbatim>\<open>"Position: {pan:.1f}, {tilt:.1f}"\<close> with its two values (in the source a degree sign
  follows each value). The rendering of a float in an f-string is not modelled.
\<close>

datatype reply = NoServo | MovingTo real real | InvalidArgs | PositionIs real real

text \<open>
  \<^verbatim>\<open>SerialDebugger.cmd_servo\<close>. The result is the value returned or the exception that
  leaves the method, with the components as they are at that point. \<^verbatim>\<open>params.get\<close> on a
  string and \<^verbatim>\<open>.split()\<close> on a \<^verbatim>\<open>dict\<close> raise \<^verbatim>\<open>AttributeError\<close>; a \<^verbatim>\<open>ValueError\<close> of either
  \<^verbatim>\<open>float\<close> call is caught and answered with \<^verbatim>\<open>"Invalid args"\<close>, the first argument being
  converted first.
\<close>

definition cmd_servo :: "json \<Rightarrow> components \<Rightarrow> ((py_error + reply) \<times> components) modelled" where
  "cmd_servo params c =
     (case servo c of
        None \<Rightarrow> Known (Inr NoServo, c)
      | Some sv \<Rightarrow>
          (case params of
             JStr _ \<Rightarrow> Known (Inl AttributeError, c)
           | JObj d \<Rightarrow>
               (case (case dict_get d ''args'' of None \<Rightarrow> JStr [] | Some v \<Rightarrow> v) of
                  JObj _ \<Rightarrow> Known (Inl AttributeError, c)
                | JStr a \<Rightarrow>
                    let args = py_split a in
                    if length args \<ge> 2 then
                      (case py_float (args ! 0) of
                         NotModelled \<Rightarrow> NotModelled
                       | Known (Inl e) \<Rightarrow> Known (Inr InvalidArgs, c)
                       | Known (Inr pan) \<Rightarrow>
                           (case py_float (args ! 1) of
                              NotModelled \<Rightarrow> NotModelled
                            | Known (Inl e) \<Rightarrow> Known (Inr InvalidArgs, c)
                            | Known (Inr tilt) \<Rightarrow>
                                Known (Inr (MovingTo pan tilt),
                                       c\<lparr>servo := Some (set_target_position pan tilt sv)\<rparr>)))
                    else
                      let (pan, tilt) = get_current_position sv
                      in Known (Inr (PositionIs pan tilt), c))))"

text \<open>
  A queued message. The source queues the UTF-8 bytes of the JSON text of
  \<^verbatim>\<open>{"timestamp": ..., "type": ..., "data": ...}\<close>; the model queues the three values. The
  data of a \<^verbatim>\<open>RESULT\<close> message is \<^verbatim>\<open>{"command": ..., "result": ...}\<close>.
\<close>

datatype payload = CommandResult string reply | Text string

record message =
  timestamp :: real
  msg_type :: string
  data :: payload

type_synonym callback = "json \<Rightarrow> components \<Rightarrow> ((py_error + reply) \<times> components) modelled"

record serial_interface =
  is_connected :: bool
  write_queue :: "message list"
  command_callbacks :: "string \<rightharpoonup> callback"

definition send_message :: "real \<Rightarrow> string \<Rightarrow> payload \<Rightarrow> serial_interface \<Rightarrow> serial_interface" where
  "send_message now ty d ser =
     (if \<not> is_connected ser then ser
      else ser\<lparr>write_queue := write_queue ser @ [\<lparr>timestamp = now, msg_type = ty, data = d\<rparr>]\<rparr>)"

definition register_command :: "string \<Rightarrow> callback \<Rightarrow> serial_interface \<Rightarrow> serial_interface" where
  "register_command command cb ser =
     ser\<lparr>command_callbacks := (command_callbacks ser)(command \<mapsto> cb)\<rparr>"

text \<open>
  The first half of the \<^verbatim>\<open>try\<close> block of \<^verbatim>\<open>SerialInterface.process_command\<close>: the line
  becomes a command and its parameters. On the JSON path the command is whatever is
  stored under \<^verbatim>\<open>"command"\<close> (\<open>None\<close> when the key is absent) and the parameters default to
  the empty \<^verbatim>\<open>dict\<close>.
\<close>

definition parse_command :: "string \<Rightarrow> (py_error + json option \<times> json) modelled" where
  "parse_command command_line =
     (if (case command_line of [] \<Rightarrow> False | c # _ \<Rightarrow> c = CHR ''{'') then
        (case json_loads command_line of
           NotModelled \<Rightarrow> NotModelled
         | Known (JStr _) \<Rightarrow> Known (Inl AttributeError)
         | Known (JObj d) \<Rightarrow>
             Known (Inr (dict_get d ''command'',
                         (case dict_get d ''params'' of None \<Rightarrow> JObj [] | Some p \<Rightarrow> p))))
      else
        let parts = py_split1 command_line in
        (case py_upper (parts ! 0) of
           NotModelled \<Rightarrow> NotModelled
         | Known command \<Rightarrow>
             Known (Inr (Some (JStr command),
                         JObj [(''args'', JStr (if length parts > 1 then parts ! 1 else []))]))))"

text \<open>
  \<^verbatim>\<open>SerialInterface.process_command\<close>, on the serial interface and the components its
  callbacks act on. Every exception raised inside the \<^verbatim>\<open>try\<close> block is swallowed, so a
  failed parse, a command that cannot be a key (a \<^verbatim>\<open>dict\<close>), an unknown command and a
  callback that raises all end without a message.
\<close>

definition process_command ::
  "real \<Rightarrow> string \<Rightarrow> serial_interface \<times> components \<Rightarrow> (serial_interface \<times> components) modelled"
where
  "process_command now command_line st =
     (let (ser, c) = st in
      if command_line = [] then Known (ser, c)
      else
        (case parse_command command_line of
           NotModelled \<Rightarrow> NotModelled
         | Known (Inl e) \<Rightarrow> Known (ser, c)
         | Known (Inr (command, params)) \<Rightarrow>
             (case command of
                None \<Rightarrow> Known (ser, c)
              | Some (JObj _) \<Rightarrow> Known (ser, c)
              | Some (JStr name) \<Rightarrow>
                  (case command_callbacks ser name of
                     None \<Rightarrow> Known (ser, c)
                   | Some cb \<Rightarrow>
                       (case cb params c of
                          NotModelled \<Rightarrow> NotModelled
                        | Known (Inl e, c') \<Rightarrow> Known (ser, c')
                        | Known (Inr result, c') \<Rightarrow>
                            Known (send_message now ''RESULT'' (CommandResult name result) ser,
                                   c'))))))"

text \<open>The two input lines of the round-trip property, and a connected interface.\<close>

definition line_text :: string where
  "line_text = ''SERVO 45 30''"

definition line_json :: string where
  \<open>line_json = ''{"command":"SERVO","params":{"args":"45 30"}}''\<close>

definition serial_up :: serial_interface where
  "serial_up = \<lparr>is_connected = True, write_queue = [], command_callbacks = Map.empty\<rparr>"

definition sample_components :: components where
  "sample_components = \<lparr>servo = Some (servo_init 0), laser = None, tracker = None\<rparr>"

section \<open>The selection and angle rules in the words of the specification\<close>

text \<open>
  Position \<open>i\<close> of a list holds the earliest element of greatest key (of least key): no
  element has a greater (smaller) key, and every element before position \<open>i\<close> has a
  strictly smaller (greater) one.
\<close>

definition first_max_at :: "('a \<Rightarrow> real) \<Rightarrow> 'a list \<Rightarrow> nat \<Rightarrow> bool" where
  "first_max_at key ds i \<longleftrightarrow>
     i < length ds \<and> (\<forall>e \<in> set ds. key e \<le> key (ds ! i)) \<and>
     (\<forall>e \<in> set (take i ds). key e < key (ds ! i))"

definition first_min_at :: "('a \<Rightarrow> real) \<Rightarrow> 'a list \<Rightarrow> nat \<Rightarrow> bool" where
  "first_min_at key ds i \<longleftrightarrow>
     i < length ds \<and> (\<forall>e \<in> set ds. key (ds ! i) \<le> key e) \<and>
     (\<forall>e \<in> set (take i ds). key (ds ! i) < key e)"

text \<open>
  The smoothed position as the specification words it: the mean of the position history,
  or the frame center when the history is empty.
\<close>

definition mean_position :: "target_tracker \<Rightarrow> real \<times> real" where
  "mean_position s =
     (let h = position_history s in
      if h = [] then (real_of_int (frame_center_x s), real_of_int (frame_center_y s))
      else (sum_list (map fst h) / real (length h), sum_list (map snd h) / real (length h)))"

text \<open>
  The requested angle of one axis as the specification words it: zero inside the
  deadzone, otherwise the error over half the frame dimension, times the maximum angle,
  limited to \<open>[-max_angle, max_angle]\<close>.
\<close>

definition axis_angle :: "real \<Rightarrow> real \<Rightarrow> real \<Rightarrow> real \<Rightarrow> real" where
  "axis_angle err deadzone half max_angle =
     (if \<bar>err\<bar> < deadzone then 0
      else
        let v = err / half * max_angle
        in if v < - max_angle then - max_angle else if max_angle < v then max_angle else v)"

section \<open>Sample detections and tracker states\<close>

text \<open>
  Detections on a 640 by 480 frame. \<open>det_b\<close> and \<open>det_c\<close> have the same area 400, larger
  than that of \<open>det_a\<close>; the centers of \<open>det_e\<close> and \<open>det_f\<close> are both 50 pixels from the
  center of \<open>det_b\<close>, that of \<open>det_d\<close> is 100 pixels from it; the center of \<open>det_g\<close> is 60
  pixels to the right of the frame center.
\<close>

definition det_a :: bounding_box where
  "det_a = \<lparr>x = 0, y = 0, width = 10, height = 10, confidence = 9/10, class_id = 0\<rparr>"
definition det_b :: bounding_box where
  "det_b = \<lparr>x = 100, y = 100, width = 20, height = 20, confidence = 8/10, class_id = 0\<rparr>"
definition det_c :: bounding_box where
  "det_c = \<lparr>x = 300, y = 100, width = 40, height = 10, confidence = 7/10, class_id = 0\<rparr>"
definition det_d :: bounding_box where
  "det_d = \<lparr>x = 200, y = 100, width = 20, height = 20, confidence = 9/10, class_id = 0\<rparr>"
definition det_e :: bounding_box where
  "det_e = \<lparr>x = 130, y = 140, width = 20, height = 20, confidence = 6/10, class_id = 0\<rparr>"
definition det_f :: bounding_box where
  "det_f = \<lparr>x = 50, y = 100, width = 20, height = 20, confidence = 9/10, class_id = 0\<rparr>"
definition det_g :: bounding_box where
  "det_g = \<lparr>x = 370, y = 230, width = 20, height = 20, confidence = 9/10, class_id = 0\<rparr>"

definition tracking_b :: target_tracker where
  "tracking_b = snd (update_target 1 [det_a, det_b, det_c] (tracker_init 640 480))"

definition tracking_g :: target_tracker where
  "tracking_g = snd (update_target 1 [det_g] (tracker_init 640 480))"

section \<open>Properties of the emitter safety controller\<close>

lemma laser_step_timeout: "safety_timeout (laser_step (t, e) s) = safety_timeout s"
  by (cases e) (simp_all add: turn_on_def turn_off_def safety_tick_def)

lemma laser_step_inv:
  assumes "0 \<le> safety_timeout s"
    and "is_on s \<longrightarrow> lt - last_on_time s \<le> safety_timeout s"
    and "lt \<le> t"
  shows "is_on (laser_step (t, e) s) \<longrightarrow>
           (if e = Tick then t else lt) - last_on_time (laser_step (t, e) s) \<le> safety_timeout s"
  using assms by (cases e) (auto simp: turn_on_def turn_off_def safety_tick_def)

text \<open>
  The invariant carried along a run: if the emitter is on, it was switched on no longer
  than \<open>safety_timeout\<close> before the most recent watchdog tick.
\<close>

lemma laser_run_inv:
  assumes "0 \<le> safety_timeout s"
    and "is_on s \<longrightarrow> lt - last_on_time s \<le> safety_timeout s"
    and "lt \<le> prev"
    and "cadence P lt prev evs"
  shows "is_on (laser_run s evs) \<longrightarrow>
           last_tick lt evs - last_on_time (laser_run s evs) \<le> safety_timeout s"
  using assms
proof (induction evs arbitrary: s lt prev)
  case Nil
  then show ?case by simp
next
  case (Cons a evs)
  obtain t e where a: "a = (t, e)" by (cases a)
  let ?s = "laser_step (t, e) s" and ?lt = "if e = Tick then t else lt"
  from Cons.prems a have t: "prev \<le> t" "t \<le> lt + P" and c: "cadence P ?lt t evs"
    by simp_all
  have 1: "0 \<le> safety_timeout ?s"
    using Cons.prems(1) by (simp add: laser_step_timeout)
  have 2: "is_on ?s \<longrightarrow> ?lt - last_on_time ?s \<le> safety_timeout ?s"
    using laser_step_inv [OF Cons.prems(1,2), of t e] Cons.prems(3) t
    by (simp add: laser_step_timeout)
  have 3: "?lt \<le> t" using Cons.prems(3) t by simp
  show ?case using Cons.IH [OF 1 2 3 c] by (simp add: a laser_step_timeout)
qed

text \<open>
  C1. Start from an initialized controller that is off, with a non-negative
  \<open>safety_timeout\<close>, the watchdog thread started at time \<open>t0\<close>. Take any sequence of
  \<open>turn_on\<close> and \<open>turn_off\<close> calls and watchdog ticks whose clock values do not decrease
  and in which no step comes later than one watchdog period \<open>P\<close> after the previous tick.
  At every time \<open>now\<close> within one period of the last tick, if \<open>is_on\<close> holds then
  \<open>now - last_on_time \<le> safety_timeout + P\<close>. And in every state, a watchdog tick that
  sees \<open>is_on\<close> with \<open>now - last_on_time > safety_timeout\<close> drives the pin low and clears
  \<open>is_on\<close>; no call of \<open>turn_off\<close> is involved.
\<close>

theorem emitter_safety_invariant:
  assumes "is_initialized s0" and "\<not> is_on s0" and "0 \<le> safety_timeout s0"
    and "cadence P t0 t0 evs" and "now \<le> last_tick t0 evs + P"
  shows "(is_on (laser_run s0 evs) \<longrightarrow>
            now - last_on_time (laser_run s0 evs) \<le> safety_timeout s0 + P) \<and>
         (\<forall>s t. is_on s \<and> t - last_on_time s > safety_timeout s \<longrightarrow>
            safety_tick t s = s\<lparr>pin_out := LOW, is_on := False\<rparr> \<and>
            pin_out (safety_tick t s) = LOW \<and> \<not> is_on (safety_tick t s))"
proof -
  have "is_on (laser_run s0 evs) \<longrightarrow>
          last_tick t0 evs - last_on_time (laser_run s0 evs) \<le> safety_timeout s0"
    using laser_run_inv [of s0 t0 t0 P evs] assms by simp
  then show ?thesis using assms(5) by (auto simp: safety_tick_def)
qed

text \<open>
  The witness: timeout 0.2 s, period 0.1 s. The emitter is switched on at 0.05 s, a
  second \<open>turn_on\<close> at 0.15 s changes nothing, the ticks at 0.1 s and 0.2 s see at most
  0.15 s of on-time, and the tick at 0.3 s sees 0.25 s and forces the emitter off.
\<close>

theorem emitter_safety_invariant_witness:
  "is_on (laser_run (snd (initialize (laser_init 20 (1/5))))
            [(1/20, TurnOn), (1/10, Tick), (3/20, TurnOn), (1/5, Tick)]) \<and>
   3/10 - last_on_time (laser_run (snd (initialize (laser_init 20 (1/5))))
            [(1/20, TurnOn), (1/10, Tick), (3/20, TurnOn), (1/5, Tick)]) \<le> 1/5 + 1/10 \<and>
   \<not> is_on (safety_tick (3/10) (laser_run (snd (initialize (laser_init 20 (1/5))))
            [(1/20, TurnOn), (1/10, Tick), (3/20, TurnOn), (1/5, Tick)])) \<and>
   pin_out (safety_tick (3/10) (laser_run (snd (initialize (laser_init 20 (1/5))))
            [(1/20, TurnOn), (1/10, Tick), (3/20, TurnOn), (1/5, Tick)])) = LOW"
proof -
  let ?s0 = "snd (initialize (laser_init 20 (1/5)))"
  let ?evs = "[(1/20, TurnOn), (1/10, Tick), (3/20, TurnOn), (1/5, Tick)]
                :: (real \<times> laser_event) list"
  have s0: "?s0 = \<lparr>enable_pin = 20, safety_timeout = 1/5, is_on = False,
      is_initialized = True, last_on_time = 0, safety_running = True, pin_out = LOW\<rparr>"
    by (simp add: initialize_def laser_init_def)
  have run: "laser_run ?s0 ?evs = \<lparr>enable_pin = 20, safety_timeout = 1/5, is_on = True,
      is_initialized = True, last_on_time = 1/20, safety_running = True, pin_out = HIGH\<rparr>"
    unfolding s0 by (simp add: turn_on_def safety_tick_def)
  have h: "is_initialized ?s0" "\<not> is_on ?s0" "0 \<le> safety_timeout ?s0"
    "cadence (1/10) 0 0 ?evs" "3/10 \<le> last_tick 0 ?evs + 1/10"
    unfolding s0 by simp_all
  note th = emitter_safety_invariant [OF h]
  have on: "is_on (laser_run ?s0 ?evs)" unfolding run by simp
  have late: "safety_timeout (laser_run ?s0 ?evs) < 3/10 - last_on_time (laser_run ?s0 ?evs)"
    unfolding run by simp
  have bound: "3/10 - last_on_time (laser_run ?s0 ?evs) \<le> 1/5 + 1/10"
    using th on unfolding s0 by simp
  have off: "\<not> is_on (safety_tick (3/10) (laser_run ?s0 ?evs)) \<and>
             pin_out (safety_tick (3/10) (laser_run ?s0 ?evs)) = LOW"
    using th on late by blast
  show ?thesis using on bound off by blast
qed

text \<open>
  C2. On an initialized controller that is already on, \<open>turn_on\<close> returns \<open>True\<close> and
  leaves the whole state as it is, so \<open>is_on\<close>, \<open>last_on_time\<close> and the pin are unchanged
  and a repeated call does not refresh \<open>last_on_time\<close>. On an initialized controller
  that is off, it returns \<open>True\<close>, drives the pin high, sets \<open>is_on\<close> and records
  \<open>last_on_time = now\<close>, leaving the other fields alone.
\<close>

theorem turn_on_noop_when_on:
  "(is_initialized s \<and> is_on s \<longrightarrow> turn_on now s = (True, s)) \<and>
   (is_initialized s \<and> \<not> is_on s \<longrightarrow>
      turn_on now s = (True, s\<lparr>pin_out := HIGH, is_on := True, last_on_time := now\<rparr>) \<and>
      pin_out (snd (turn_on now s)) = HIGH \<and> is_on (snd (turn_on now s)) \<and>
      last_on_time (snd (turn_on now s)) = now)"
  by (simp add: turn_on_def)

theorem turn_on_noop_when_on_witness:
  "turn_on 7 (snd (turn_on 3 (snd (initialize (laser_init 20 5))))) =
     (True, snd (turn_on 3 (snd (initialize (laser_init 20 5))))) \<and>
   last_on_time (snd (turn_on 7 (snd (turn_on 3 (snd (initialize (laser_init 20 5))))))) = 3 \<and>
   pin_out (snd (turn_on 3 (snd (initialize (laser_init 20 5))))) = HIGH \<and>
   last_on_time (snd (turn_on 3 (snd (initialize (laser_init 20 5))))) = 3"
  using turn_on_noop_when_on [of "snd (turn_on 3 (snd (initialize (laser_init 20 5))))" 7]
    turn_on_noop_when_on [of "snd (initialize (laser_init 20 5))" 3]
  by (simp add: initialize_def laser_init_def turn_on_def)

text \<open>
  C9. On a controller that is not initialized, \<open>turn_on\<close> and \<open>turn_off\<close> return \<open>False\<close>
  and change no field. \<open>emergency_stop\<close> has no guard and no failure result: in every
  state, initialized or not, on or off, it leaves the pin low and \<open>is_on\<close> false.
\<close>

theorem uninitialized_refused_emergency_stop_total:
  "(\<not> is_initialized s \<longrightarrow> turn_on now s = (False, s) \<and> turn_off s = (False, s)) \<and>
   pin_out (emergency_stop s) = LOW \<and> \<not> is_on (emergency_stop s) \<and>
   emergency_stop s = s\<lparr>pin_out := LOW, is_on := False\<rparr>"
  by (simp add: turn_on_def turn_off_def emergency_stop_def)

theorem uninitialized_refused_emergency_stop_total_witness:
  "turn_on 3 (laser_init 20 5) = (False, laser_init 20 5) \<and>
   turn_off (laser_init 20 5) = (False, laser_init 20 5) \<and>
   pin_out (emergency_stop (laser_init 20 5)) = LOW \<and>
   \<not> is_on (emergency_stop (laser_init 20 5))"
  using uninitialized_refused_emergency_stop_total [of "laser_init 20 5" 3]
  by (simp add: laser_init_def)

section \<open>Properties of the PID controller and the servo controller\<close>

lemma clamp_range: "lo \<le> hi \<Longrightarrow> lo \<le> clamp lo hi v \<and> clamp lo hi v \<le> hi"
  by (simp add: clamp_def)

lemma clamp_inside: "lo \<le> v \<Longrightarrow> v \<le> hi \<Longrightarrow> clamp lo hi v = v"
  by (simp add: clamp_def)

lemma clamp_cases:
  "lo \<le> hi \<Longrightarrow> clamp lo hi v = (if v < lo then lo else if hi < v then hi else v)"
  by (simp add: clamp_def)

lemma clamp_idem: "clamp lo hi (clamp lo hi v) = clamp lo hi v"
  by (simp add: clamp_def)

text \<open>
  C3. With \<open>dt = now - last_time\<close>: if \<open>dt \<le> 0\<close>, \<open>update\<close> returns \<open>0\<close> and the state is
  unchanged (so \<open>integral\<close>, \<open>last_error\<close> and \<open>last_time\<close> are). If \<open>dt > 0\<close>, the new
  integral is the old one plus \<open>error * dt\<close>, \<open>last_error\<close> becomes \<open>error\<close>, \<open>last_time\<close>
  becomes \<open>now\<close>, nothing else changes, and the value returned is
  \<open>kp * error + ki * integral + kd * (error - last_error) / dt\<close>, with the new integral and
  the old \<open>last_error\<close>, passed through \<^verbatim>\<open>max(-max_output, min(max_output, _))\<close>; for a
  non-negative \<open>max_output\<close> that value lies in \<open>[-max_output, max_output]\<close> and is the raw
  sum itself whenever the raw sum lies in that interval, the nearer bound otherwise.
\<close>

theorem pid_update_contract:
  "(now - last_time s \<le> 0 \<longrightarrow> pid_update now e s = (0, s)) \<and>
   (0 < now - last_time s \<longrightarrow>
      (let dt = now - last_time s;
           acc = integral s + e * dt;
           raw = kp s * e + ki s * acc + kd s * (e - last_error s) / dt
       in snd (pid_update now e s) = s\<lparr>integral := acc, last_error := e, last_time := now\<rparr> \<and>
          fst (pid_update now e s) = max (- max_output s) (min (max_output s) raw) \<and>
          (0 \<le> max_output s \<longrightarrow>
             - max_output s \<le> fst (pid_update now e s) \<and>
             fst (pid_update now e s) \<le> max_output s \<and>
             fst (pid_update now e s) =
               (if raw < - max_output s then - max_output s
                else if max_output s < raw then max_output s else raw))))"
  by (simp add: pid_update_def Let_def clamp_def)

text \<open>
  The witness runs the default controller (gains 0.8, 0.1, 0.2, bound 10) created at time
  0: an update at time 0 has \<open>dt = 0\<close>; an update at time 1 with error 2 returns
  \<open>1.6 + 0.2 + 0.4 = 2.2\<close>; one with error 20 has the raw sum 22 and returns the bound 10.
\<close>

theorem pid_update_contract_witness:
  "pid_update 0 2 (pid_init 0 (4/5) (1/10) (1/5) 10) =
     (0, pid_init 0 (4/5) (1/10) (1/5) 10) \<and>
   pid_update 1 2 (pid_init 0 (4/5) (1/10) (1/5) 10) =
     (11/5, (pid_init 0 (4/5) (1/10) (1/5) 10)
              \<lparr>integral := 2, last_error := 2, last_time := 1\<rparr>) \<and>
   fst (pid_update 1 20 (pid_init 0 (4/5) (1/10) (1/5) 10)) = 10"
proof -
  let ?s = "pid_init 0 (4/5) (1/10) (1/5) 10"
  have a: "pid_update 0 2 ?s = (0, ?s)"
    using pid_update_contract [of 0 ?s 2] by (simp add: pid_init_def)
  have b: "snd (pid_update 1 2 ?s) = ?s\<lparr>integral := 2, last_error := 2, last_time := 1\<rparr> \<and>
           fst (pid_update 1 2 ?s) = 11/5"
    using pid_update_contract [of 1 ?s 2] by (simp add: pid_init_def Let_def)
  have c: "fst (pid_update 1 20 ?s) = 10"
    using pid_update_contract [of 1 ?s 20] by (simp add: pid_init_def Let_def)
  from b have "pid_update 1 2 ?s = (11/5, ?s\<lparr>integral := 2, last_error := 2, last_time := 1\<rparr>)"
    by (metis prod.collapse)
  with a c show ?thesis by blast
qed

text \<open>
  C4. For every pair \<open>(pan, tilt)\<close>: with limits that form an interval
  (\<open>pan_min \<le> pan_max\<close>, \<open>tilt_min \<le> tilt_max\<close>), the stored \<open>target_pan\<close> lies in
  \<open>[pan_min, pan_max]\<close> and the stored \<open>target_tilt\<close> in \<open>[tilt_min, tilt_max]\<close>; an input
  inside the limits of its axis is stored unchanged; calling the operation a second time
  with the same arguments, or with the values it has just stored, gives the same state
  as calling it once.
\<close>

theorem set_target_position_clamped:
  "(pan_min s \<le> pan_max s \<longrightarrow>
      pan_min s \<le> target_pan (set_target_position pan tilt s) \<and>
      target_pan (set_target_position pan tilt s) \<le> pan_max s) \<and>
   (tilt_min s \<le> tilt_max s \<longrightarrow>
      tilt_min s \<le> target_tilt (set_target_position pan tilt s) \<and>
      target_tilt (set_target_position pan tilt s) \<le> tilt_max s) \<and>
   (pan_min s \<le> pan \<and> pan \<le> pan_max s \<longrightarrow>
      target_pan (set_target_position pan tilt s) = pan) \<and>
   (tilt_min s \<le> tilt \<and> tilt \<le> tilt_max s \<longrightarrow>
      target_tilt (set_target_position pan tilt s) = tilt) \<and>
   set_target_position pan tilt (set_target_position pan tilt s) = set_target_position pan tilt s \<and>
   set_target_position (target_pan (set_target_position pan tilt s))
      (target_tilt (set_target_position pan tilt s)) (set_target_position pan tilt s)
     = set_target_position pan tilt s"
  by (simp add: set_target_position_def clamp_range clamp_inside clamp_idem)

text \<open>
  The witness uses the default limits \<open>[-90, 90]\<close> and \<open>[-45, 45]\<close>: the request
  \<open>(1000, -1000)\<close> is stored inside the limits, the request \<open>(45, 30)\<close> is stored as it is.
\<close>

theorem set_target_position_clamped_witness:
  "- 90 \<le> target_pan (set_target_position 1000 (- 1000) (servo_init 0)) \<and>
   target_pan (set_target_position 1000 (- 1000) (servo_init 0)) \<le> 90 \<and>
   - 45 \<le> target_tilt (set_target_position 1000 (- 1000) (servo_init 0)) \<and>
   target_tilt (set_target_position 1000 (- 1000) (servo_init 0)) \<le> 45 \<and>
   target_pan (set_target_position 45 30 (servo_init 0)) = 45 \<and>
   target_tilt (set_target_position 45 30 (servo_init 0)) = 30"
proof -
  have f: "pan_min (servo_init 0) = - 90" "pan_max (servo_init 0) = 90"
    "tilt_min (servo_init 0) = - 45" "tilt_max (servo_init 0) = 45"
    by (simp_all add: servo_init_def)
  show ?thesis
    using set_target_position_clamped [of "servo_init 0" 1000 "- 1000"]
      set_target_position_clamped [of "servo_init 0" 45 30]
    by (simp add: f)
qed

section \<open>Properties of the target tracker\<close>

subsection \<open>The sample states, evaluated\<close>

lemmas det_defs = det_a_def det_b_def det_c_def det_d_def det_e_def det_f_def det_g_def

lemma det_area: "area det_a = 100" "area det_b = 400" "area det_c = 400"
  by (simp_all add: det_defs area_def)

lemma det_center: "center det_b = (110, 110)" "center det_d = (210, 110)"
  "center det_e = (140, 150)" "center det_f = (60, 110)" "center det_g = (380, 240)"
  by (simp_all add: det_defs center_def)

lemma det_dist: "distance (center det_d) (center det_b) = 100"
  "distance (center det_e) (center det_b) = 50"
  "distance (center det_f) (center det_b) = 50"
proof -
  have "sqrt (100\<^sup>2) = (100::real)" "sqrt (50\<^sup>2) = (50::real)" by simp_all
  then show "distance (center det_d) (center det_b) = 100"
  "distance (center det_e) (center det_b) = 50"
  "distance (center det_f) (center det_b) = 50"
    by (simp_all add: det_center distance_def)
qed

lemma tracking_b_eval:
  "tracking_b = (tracker_init 640 480)\<lparr>current_target := Some det_b,
                   position_history := [(110, 110)]\<rparr>"
  by (simp add: tracking_b_def update_target_def py_max_def det_area det_center
      add_to_history_def tracker_init_def Let_def)

lemma tracking_g_eval:
  "tracking_g = (tracker_init 640 480)\<lparr>current_target := Some det_g,
                   position_history := [(380, 240)]\<rparr>"
  by (simp add: tracking_g_def update_target_def py_max_def det_center
      add_to_history_def tracker_init_def Let_def)

subsection \<open>One pass of max and min finds the earliest extremum\<close>

lemma first_max_at_snoc:
  assumes "first_max_at key pre i"
  shows "\<exists>j. first_max_at key (pre @ [e]) j \<and>
             (if key e > key (pre ! i) then e else pre ! i) = (pre @ [e]) ! j"
proof (cases "key e > key (pre ! i)")
  case True
  have "first_max_at key (pre @ [e]) (length pre)"
    using assms True by (fastforce simp: first_max_at_def)
  with True show ?thesis by (intro exI [of _ "length pre"]) simp
next
  case False
  have "first_max_at key (pre @ [e]) i"
    using assms False by (auto simp: first_max_at_def nth_append)
  with False assms show ?thesis
    by (intro exI [of _ i]) (simp add: first_max_at_def nth_append)
qed

lemma foldl_first_max:
  assumes "first_max_at key pre i"
  shows "\<exists>j. first_max_at key (pre @ ds) j \<and>
             foldl (\<lambda>best e. if key e > key best then e else best) (pre ! i) ds = (pre @ ds) ! j"
  using assms
proof (induction ds arbitrary: pre i)
  case Nil
  then show ?case by auto
next
  case (Cons e ds)
  from first_max_at_snoc [OF Cons.prems, of e] obtain j where
    j: "first_max_at key (pre @ [e]) j"
       "(if key e > key (pre ! i) then e else pre ! i) = (pre @ [e]) ! j" by blast
  from Cons.IH [OF j(1)] j(2) show ?case by simp
qed

lemma py_max_first: "\<exists>j. first_max_at key (d # ds) j \<and> py_max key d ds = (d # ds) ! j"
proof -
  have "first_max_at key [d] 0" by (simp add: first_max_at_def)
  from foldl_first_max [OF this, of ds] show ?thesis by (simp add: py_max_def)
qed

lemma py_min_as_max: "py_min key d ds = py_max (\<lambda>e. - key e) d ds"
  by (simp add: py_min_def py_max_def)

lemma first_min_as_max: "first_min_at key ds i = first_max_at (\<lambda>e. - key e) ds i"
  by (simp add: first_min_at_def first_max_at_def)

lemma py_min_first: "\<exists>j. first_min_at key (d # ds) j \<and> py_min key d ds = (d # ds) ! j"
  using py_max_first [of "\<lambda>e. - key e" d ds] by (simp add: py_min_as_max first_min_as_max)

text \<open>
  C6. For every non-empty detection list, \<open>update_target\<close> clears the lost-timer and
  returns, and stores as the track, the detection at some position \<open>i\<close> of the list: when
  there was no track before the call, \<open>i\<close> is the earliest position of greatest area
  (\<open>width * height\<close>); when there was a track, \<open>i\<close> is the earliest position whose center
  is at the least Euclidean distance from the center of that track.
\<close>

theorem target_selection_rule:
  assumes "detections \<noteq> []"
  shows "\<exists>i. fst (update_target now detections s) = Some (detections ! i) \<and>
             current_target (snd (update_target now detections s)) = Some (detections ! i) \<and>
             target_lost_time (snd (update_target now detections s)) = 0 \<and>
             (case current_target s of
                None \<Rightarrow> first_max_at area detections i
              | Some cur \<Rightarrow>
                  first_min_at (\<lambda>det. distance (center det) (center cur)) detections i)"
proof -
  from assms obtain d ds where dd: "detections = d # ds" by (cases detections) auto
  show ?thesis
  proof (cases "current_target s")
    case None
    from py_max_first [of area d ds] obtain j where
      "first_max_at area (d # ds) j" "py_max area d ds = (d # ds) ! j" by blast
    then show ?thesis using None unfolding dd
      by (intro exI [of _ j]) (simp add: update_target_def add_to_history_def Let_def)
  next
    case (Some cur)
    from py_min_first [of "\<lambda>det. distance (center det) (center cur)" d ds] obtain j where
      "first_min_at (\<lambda>det. distance (center det) (center cur)) (d # ds) j"
      "py_min (\<lambda>det. distance (center det) (center cur)) d ds = (d # ds) ! j" by blast
    then show ?thesis using Some unfolding dd
      by (intro exI [of _ j]) (simp add: update_target_def add_to_history_def Let_def)
  qed
qed

text \<open>
  The witness: with no track, \<open>det_b\<close> is chosen from \<open>[det_a, det_b, det_c]\<close>, ahead of
  \<open>det_c\<close> of the same area; with the track \<open>det_b\<close>, \<open>det_e\<close> is chosen from
  \<open>[det_d, det_e, det_f]\<close>, ahead of \<open>det_f\<close> at the same distance.
\<close>

theorem target_selection_rule_witness:
  "fst (update_target 1 [det_a, det_b, det_c] (tracker_init 640 480)) = Some det_b \<and>
   fst (update_target 2 [det_d, det_e, det_f] tracking_b) = Some det_e \<and>
   target_lost_time (snd (update_target 2 [det_d, det_e, det_f] tracking_b)) = 0"
proof -
  let ?ds = "[det_a, det_b, det_c]" and ?s = "tracker_init 640 480"
  have "[det_a, det_b, det_c] \<noteq> []" by simp
  from target_selection_rule [OF this, of 1 ?s] obtain i where
    r: "fst (update_target 1 ?ds ?s) = Some (?ds ! i)" and m: "first_max_at area ?ds i"
    by (auto simp: tracker_init_def)
  from m have "i < 3" by (simp add: first_max_at_def)
  then consider "i = 0" | "i = 1" | "i = 2" by linarith
  then have "i = 1" using m
    by cases (simp_all add: first_max_at_def det_area)
  with r have one: "fst (update_target 1 ?ds ?s) = Some det_b" by simp
  let ?es = "[det_d, det_e, det_f]"
  have "[det_d, det_e, det_f] \<noteq> []" by simp
  from target_selection_rule [OF this, of 2 tracking_b] obtain j where
    r2: "fst (update_target 2 ?es tracking_b) = Some (?es ! j)"
    and z: "target_lost_time (snd (update_target 2 ?es tracking_b)) = 0"
    and m2: "first_min_at (\<lambda>det. distance (center det) (center det_b)) ?es j"
    by (auto simp: tracking_b_eval)
  from m2 have "j < 3" by (simp add: first_min_at_def)
  then consider "j = 0" | "j = 1" | "j = 2" by linarith
  then have "j = 1" using m2
    by cases (simp_all add: first_min_at_def det_dist)
  with r2 have "fst (update_target 2 ?es tracking_b) = Some det_e" by simp
  with one z show ?thesis by blast
qed

subsection \<open>Holding the track through a gap in the detections\<close>

lemma hold_run:
  assumes "current_target s = Some c" and "target_lost_time s = t0" and "t0 \<noteq> 0"
    and "\<forall>t \<in> set ts. t - t0 \<le> max_lost_time s"
  shows "update_frames s (map (\<lambda>t. (t, [])) ts) = (replicate (length ts) (Some c), s)"
  using assms(4)
proof (induction ts)
  case Nil
  show ?case by simp
next
  case (Cons t ts)
  have "update_target t [] s = (Some c, s)"
    using assms(1,2,3) Cons.prems by (simp add: update_target_def)
  with Cons show ?case by simp
qed

text \<open>
  C5. Let a track \<open>c\<close> exist and the lost-timer be idle, and let \<open>update_target\<close> be called
  with the empty list at the clock value \<open>t0\<close> (not zero, as zero is the value of an idle
  timer) and then at the clock values \<open>ts\<close>, none of them later than \<open>max_lost_time\<close>
  after \<open>t0\<close>. The first call starts the timer at \<open>t0\<close> and returns \<open>c\<close>; every call
  returns \<open>c\<close>, and the state after them is the state before with only the timer set.
  From there, a call with the empty list at a time more than \<open>max_lost_time\<close> after \<open>t0\<close>
  returns \<open>None\<close>, sets the track to \<open>None\<close> and empties the position history; and a call
  with a non-empty list, at any time, does not clear the track: it returns and stores the
  detection chosen by distance from the center of \<open>c\<close>, and stops the timer.
\<close>

theorem track_loss_handling:
  assumes "current_target s = Some c" and "target_lost_time s = 0" and "t0 \<noteq> 0"
    and "\<forall>t \<in> set ts. t - t0 \<le> max_lost_time s"
  shows "update_target t0 [] s = (Some c, s\<lparr>target_lost_time := t0\<rparr>) \<and>
         update_frames s (map (\<lambda>t. (t, [])) (t0 # ts)) =
           (replicate (Suc (length ts)) (Some c), s\<lparr>target_lost_time := t0\<rparr>) \<and>
         (\<forall>t. t - t0 > max_lost_time s \<longrightarrow>
            update_target t [] (s\<lparr>target_lost_time := t0\<rparr>) =
              (None, s\<lparr>current_target := None, target_lost_time := 0, position_history := []\<rparr>)) \<and>
         (\<forall>t d ds.
            fst (update_target t (d # ds) (s\<lparr>target_lost_time := t0\<rparr>)) =
              Some (py_min (\<lambda>det. distance (center det) (center c)) d ds) \<and>
            current_target (snd (update_target t (d # ds) (s\<lparr>target_lost_time := t0\<rparr>))) =
              Some (py_min (\<lambda>det. distance (center det) (center c)) d ds) \<and>
            target_lost_time (snd (update_target t (d # ds) (s\<lparr>target_lost_time := t0\<rparr>))) = 0)"
proof -
  let ?s = "s\<lparr>target_lost_time := t0\<rparr>"
  have first: "update_target t0 [] s = (Some c, ?s)"
    using assms(1,2) by (simp add: update_target_def)
  have "update_frames ?s (map (\<lambda>t. (t, [])) ts) = (replicate (length ts) (Some c), ?s)"
    using hold_run [of ?s c t0 ts] assms by simp
  with first have run: "update_frames s (map (\<lambda>t. (t, [])) (t0 # ts)) =
           (replicate (Suc (length ts)) (Some c), ?s)" by simp
  have late: "\<forall>t. t - t0 > max_lost_time s \<longrightarrow>
            update_target t [] ?s =
              (None, s\<lparr>current_target := None, target_lost_time := 0, position_history := []\<rparr>)"
    using assms(1,3) by (simp add: update_target_def)
  have resume: "\<forall>t d ds.
            fst (update_target t (d # ds) ?s) =
              Some (py_min (\<lambda>det. distance (center det) (center c)) d ds) \<and>
            current_target (snd (update_target t (d # ds) ?s)) =
              Some (py_min (\<lambda>det. distance (center det) (center c)) d ds) \<and>
            target_lost_time (snd (update_target t (d # ds) ?s)) = 0"
    using assms(1) by (simp add: update_target_def add_to_history_def Let_def)
  from first run late resume show ?thesis by blast
qed

text \<open>
  The witness: \<open>det_b\<close> is tracked, \<open>max_lost_time\<close> is 2 s. Empty frames at 10 s, 10.5 s
  and 12 s return \<open>det_b\<close>; an empty frame at 12.5 s clears the track and the history; a
  frame at 11 s with detections keeps a track, the detection nearest to \<open>det_b\<close>.
\<close>

theorem track_loss_handling_witness:
  "update_frames tracking_b [(10, []), (21/2, []), (12, [])] =
     ([Some det_b, Some det_b, Some det_b], tracking_b\<lparr>target_lost_time := 10\<rparr>) \<and>
   update_target (25/2) [] (tracking_b\<lparr>target_lost_time := 10\<rparr>) =
     (None, tracking_b\<lparr>current_target := None, target_lost_time := 0, position_history := []\<rparr>) \<and>
   fst (update_target 11 [det_d, det_e, det_f] (tracking_b\<lparr>target_lost_time := 10\<rparr>)) = Some det_e"
proof -
  have h: "current_target tracking_b = Some det_b" "target_lost_time tracking_b = 0"
    "(10::real) \<noteq> 0" "\<forall>t \<in> set [21/2, 12]. t - 10 \<le> max_lost_time tracking_b"
    by (simp_all add: tracking_b_eval tracker_init_def)
  have mx: "max_lost_time tracking_b = 2" by (simp add: tracking_b_eval tracker_init_def)
  note th = track_loss_handling [OF h]
  have a: "update_frames tracking_b [(10, []), (21/2, []), (12, [])] =
     ([Some det_b, Some det_b, Some det_b], tracking_b\<lparr>target_lost_time := 10\<rparr>)"
  proof -
    have m: "map (\<lambda>t. (t, [])) [10, 21/2, 12 :: real] =
               [(10, []), (21/2, []), (12, []) :: real \<times> bounding_box list]" by simp
    have r: "replicate (Suc (length [21/2, 12 :: real])) (Some det_b) =
               [Some det_b, Some det_b, Some det_b]" by simp
    from th have "update_frames tracking_b (map (\<lambda>t. (t, [])) [10, 21/2, 12]) =
      (replicate (Suc (length [21/2, 12 :: real])) (Some det_b),
       tracking_b\<lparr>target_lost_time := 10\<rparr>)" by blast
    then show ?thesis by (simp only: m r)
  qed
  have b: "update_target (25/2) [] (tracking_b\<lparr>target_lost_time := 10\<rparr>) =
     (None, tracking_b\<lparr>current_target := None, target_lost_time := 0, position_history := []\<rparr>)"
    using th mx by simp
  have "py_min (\<lambda>det. distance (center det) (center det_b)) det_d [det_e, det_f] = det_e"
    by (simp add: py_min_def det_dist)
  with th have c: "fst (update_target 11 [det_d, det_e, det_f] (tracking_b\<lparr>target_lost_time := 10\<rparr>)) = Some det_e"
    by simp
  from a b c show ?thesis by blast
qed

subsection \<open>Requested angles\<close>

lemma get_smoothed_position_mean: "get_smoothed_position s = mean_position s"
  by (simp add: get_smoothed_position_def mean_position_def Let_def split: list.splits)

lemma axis_clamp:
  assumes "0 \<le> m"
  shows "clamp (- m) m ((if \<bar>e\<bar> < dz then 0 else e) / half * m) = axis_angle e dz half m"
proof (cases "\<bar>e\<bar> < dz")
  case True
  then show ?thesis using assms by (simp add: clamp_def axis_angle_def)
next
  case False
  have "- m \<le> m" using assms by simp
  from clamp_cases [OF this] False show ?thesis by (simp add: axis_angle_def Let_def)
qed

text \<open>
  C7. With a track present (or a target passed explicitly), frame dimensions that are not
  zero and non-negative maximum angles, \<open>get_servo_angles\<close> returns for each axis the
  angle \<open>axis_angle\<close> of the error of that axis, the error being the coordinate of the
  smoothed position (\<open>mean_position\<close>) minus the coordinate of the frame center: zero when
  the absolute error is below the deadzone, otherwise error over half the frame
  dimension, times the maximum angle, limited to \<open>[-max, max]\<close>.
\<close>

theorem servo_angles_from_error:
  assumes "target \<noteq> None \<or> current_target s \<noteq> None"
    and "frame_width s \<noteq> 0" and "frame_height s \<noteq> 0"
    and "0 \<le> max_pan" and "0 \<le> max_tilt"
  shows "get_servo_angles target max_pan max_tilt s =
           Inr (axis_angle (fst (mean_position s) - real_of_int (frame_center_x s))
                  (deadzone_x s) (real_of_int (frame_width s) / 2) max_pan,
                axis_angle (snd (mean_position s) - real_of_int (frame_center_y s))
                  (deadzone_y s) (real_of_int (frame_height s) / 2) max_tilt)"
proof -
  let ?ex = "fst (mean_position s) - real_of_int (frame_center_x s)"
  let ?ey = "snd (mean_position s) - real_of_int (frame_center_y s)"
  have "get_servo_angles target max_pan max_tilt s =
          Inr (clamp (- max_pan) max_pan
                 ((if \<bar>?ex\<bar> < deadzone_x s then 0 else ?ex) /
                    (real_of_int (frame_width s) / 2) * max_pan),
               clamp (- max_tilt) max_tilt
                 ((if \<bar>?ey\<bar> < deadzone_y s then 0 else ?ey) /
                    (real_of_int (frame_height s) / 2) * max_tilt))"
    using assms(1,2,3) unfolding get_servo_angles_def get_smoothed_position_mean Let_def
    by (auto simp: split_beta)
  then show ?thesis
    by (simp only: axis_clamp [OF assms(4)] axis_clamp [OF assms(5)])
qed

text \<open>
  The witness is the scenario of the specification: a 640 by 480 frame, a smoothed
  position 60 pixels to the right of the center, maximum angles 90 and 45; the pan angle
  is \<open>60 / 320 * 90 = 16.875 = 135/8\<close> and the tilt angle, with no vertical error, is 0.
\<close>

theorem servo_angles_from_error_witness:
  "get_servo_angles None 90 45 tracking_g = Inr (135/8, 0)"
proof -
  have h: "None \<noteq> None \<or> current_target tracking_g \<noteq> None" "frame_width tracking_g \<noteq> 0"
    "frame_height tracking_g \<noteq> 0" "(0::real) \<le> 90" "(0::real) \<le> 45"
    by (simp_all add: tracking_g_eval tracker_init_def)
  have m: "mean_position tracking_g = (380, 240)"
    by (simp add: mean_position_def tracking_g_eval)
  have f: "frame_center_x tracking_g = 320" "frame_center_y tracking_g = 240"
    "frame_width tracking_g = 640" "frame_height tracking_g = 480"
    "deadzone_x tracking_g = 20" "deadzone_y tracking_g = 20"
    by (simp_all add: tracking_g_eval tracker_init_def)
  show ?thesis
    using servo_angles_from_error [OF h] by (simp add: m f axis_angle_def)
qed

text \<open>
  C10. When there is no current track and no target is passed, \<open>get_servo_angles\<close>
  returns \<open>(0, 0)\<close>, \<open>get_tracking_error\<close> returns \<open>(0, 0)\<close>, and \<open>is_target_centered\<close> is
  false for every threshold.
\<close>

theorem no_track_defaults:
  "current_target s = None \<longrightarrow>
     get_servo_angles None max_pan max_tilt s = Inr (0, 0) \<and>
     get_tracking_error s = (0, 0) \<and>
     (\<forall>threshold. \<not> is_target_centered threshold s)"
  by (simp add: get_servo_angles_def get_tracking_error_def is_target_centered_def)

theorem no_track_defaults_witness:
  "get_servo_angles None 90 45 (tracker_init 640 480) = Inr (0, 0) \<and>
   get_tracking_error (tracker_init 640 480) = (0, 0) \<and>
   \<not> is_target_centered 30 (tracker_init 640 480)"
proof -
  have "current_target (tracker_init 640 480) = None" by (simp add: tracker_init_def)
  with no_track_defaults [of "tracker_init 640 480" 90 45] show ?thesis by blast
qed

section \<open>Properties of the command channel\<close>

lemma json_loads_line:
  \<open>json_loads line_json =
     Known (JObj [(''command'', JStr ''SERVO''), (''params'', JObj [(''args'', JStr ''45 30'')])])\<close>
  by (simp add: json_loads_def line_json_def skip_ws_def is_json_ws_def)

lemma parse_command_json:
  "parse_command line_json = Known (Inr (Some (JStr ''SERVO''), JObj [(''args'', JStr ''45 30'')]))"
  by (simp add: parse_command_def json_loads_line dict_get_def) (simp add: line_json_def)

lemma parse_command_text:
  "parse_command line_text = Known (Inr (Some (JStr ''SERVO''), JObj [(''args'', JStr ''45 30'')]))"
  by (simp add: parse_command_def line_text_def py_split1_def py_upper_def upper_char_def)

lemma py_split_args: "py_split ''45 30'' = [''45'', ''30'']"
  by (simp add: py_split_def is_py_space_def)

lemma py_float_args: "py_float ''45'' = Known (Inr 45)" "py_float ''30'' = Known (Inr 30)"
  by (simp_all add: py_float_def is_digit_def digits_value_def)

lemma cmd_servo_args:
  "cmd_servo (JObj [(''args'', JStr ''45 30'')]) c =
     (case servo c of
        None \<Rightarrow> Known (Inr NoServo, c)
      | Some sv \<Rightarrow> Known (Inr (MovingTo 45 30), c\<lparr>servo := Some (set_target_position 45 30 sv)\<rparr>))"
  by (simp add: cmd_servo_def dict_get_def py_split_args py_float_args split: option.splits)

lemma process_command_servo:
  assumes "parse_command cl = Known (Inr (Some (JStr ''SERVO''), JObj [(''args'', JStr ''45 30'')]))"
  shows "process_command now cl (register_command ''SERVO'' cmd_servo ser, c) =
     (case servo c of
        None \<Rightarrow>
          Known (send_message now ''RESULT'' (CommandResult ''SERVO'' NoServo)
                   (register_command ''SERVO'' cmd_servo ser), c)
      | Some sv \<Rightarrow>
          Known (send_message now ''RESULT'' (CommandResult ''SERVO'' (MovingTo 45 30))
                   (register_command ''SERVO'' cmd_servo ser),
                 c\<lparr>servo := Some (set_target_position 45 30 sv)\<rparr>))"
proof -
  have "cl \<noteq> []" using assms by (auto simp: parse_command_def py_split1_def py_upper_def)
  then show ?thesis
    by (simp add: process_command_def assms register_command_def cmd_servo_args
        split: option.splits)
qed

text \<open>
  C8. The plain-text line \<^verbatim>\<open>SERVO 45 30\<close> and the JSON line
  \<^verbatim>\<open>{"command":"SERVO","params":{"args":"45 30"}}\<close> are parsed to the same pair, the command
  \<^verbatim>\<open>SERVO\<close> with the parameters \<^verbatim>\<open>{'args': '45 30'}\<close>. With \<open>cmd_servo\<close> registered under
  \<^verbatim>\<open>SERVO\<close>, in every state of the interface and of the components, \<open>process_command\<close>
  gives the same result on both lines: with a servo present, the servo after
  \<open>set_target_position 45 30\<close> (which clamps to the configured limits) and the \<^verbatim>\<open>RESULT\<close>
  message for the reply \<open>MovingTo 45 30\<close>, queued if the interface is connected; with no
  servo, the reply \<open>NoServo\<close> and no move.
\<close>

theorem servo_command_equivalence:
  "parse_command line_text =
     Known (Inr (Some (JStr ''SERVO''), JObj [(''args'', JStr ''45 30'')])) \<and>
   parse_command line_json = parse_command line_text \<and>
   cmd_servo (JObj [(''args'', JStr ''45 30'')]) c =
     (case servo c of
        None \<Rightarrow> Known (Inr NoServo, c)
      | Some sv \<Rightarrow>
          Known (Inr (MovingTo 45 30), c\<lparr>servo := Some (set_target_position 45 30 sv)\<rparr>)) \<and>
   process_command now line_json (register_command ''SERVO'' cmd_servo ser, c) =
     process_command now line_text (register_command ''SERVO'' cmd_servo ser, c) \<and>
   process_command now line_text (register_command ''SERVO'' cmd_servo ser, c) =
     (case servo c of
        None \<Rightarrow>
          Known (send_message now ''RESULT'' (CommandResult ''SERVO'' NoServo)
                   (register_command ''SERVO'' cmd_servo ser), c)
      | Some sv \<Rightarrow>
          Known (send_message now ''RESULT'' (CommandResult ''SERVO'' (MovingTo 45 30))
                   (register_command ''SERVO'' cmd_servo ser),
                 c\<lparr>servo := Some (set_target_position 45 30 sv)\<rparr>))"
  using process_command_servo [OF parse_command_text] process_command_servo [OF parse_command_json]
  by (simp add: parse_command_text parse_command_json cmd_servo_args)

text \<open>
  The witness: a connected interface with an empty queue and a servo with the default
  limits; the targets become 45 and 30 and one \<^verbatim>\<open>RESULT\<close> message is queued.
\<close>

theorem servo_command_equivalence_witness:
  "process_command 7 line_json (register_command ''SERVO'' cmd_servo serial_up, sample_components) =
     Known ((register_command ''SERVO'' cmd_servo serial_up)
              \<lparr>write_queue := [\<lparr>timestamp = 7, msg_type = ''RESULT'',
                                 data = CommandResult ''SERVO'' (MovingTo 45 30)\<rparr>]\<rparr>,
            sample_components\<lparr>servo := Some ((servo_init 0)\<lparr>target_pan := 45, target_tilt := 30\<rparr>)\<rparr>) \<and>
   process_command 7 line_text (register_command ''SERVO'' cmd_servo serial_up, sample_components) =
     process_command 7 line_json (register_command ''SERVO'' cmd_servo serial_up, sample_components)"
proof -
  have s: "servo sample_components = Some (servo_init 0)" by (simp add: sample_components_def)
  have t: "set_target_position 45 30 (servo_init 0) =
             (servo_init 0)\<lparr>target_pan := 45, target_tilt := 30\<rparr>"
    by (simp add: set_target_position_def servo_init_def clamp_def)
  have q: "send_message 7 ''RESULT'' (CommandResult ''SERVO'' (MovingTo 45 30))
             (register_command ''SERVO'' cmd_servo serial_up) =
           (register_command ''SERVO'' cmd_servo serial_up)
              \<lparr>write_queue := [\<lparr>timestamp = 7, msg_type = ''RESULT'',
                                 data = CommandResult ''SERVO'' (MovingTo 45 30)\<rparr>]\<rparr>"
    by (simp add: send_message_def register_command_def serial_up_def)
  show ?thesis
    using servo_command_equivalence [of sample_components 7 serial_up]
    by (simp add: s t q)
qed

end
